theory Spec2Isabelle
  imports Complex_Main "HOL-Library.Char_ord" "HOL-Library.List_Lexorder"
begin

section \<open>Python values\<close>

text \<open>
  The values that flow through the client: \<open>None\<close>, strings, lists, and objects of
  classes without value equality (compared by identity, here a number).
\<close>

datatype pyval = PyNone | PyStr string | PyList "pyval list" | PyObj nat

text \<open>Truth value testing, as \<open>if token:\<close> and \<open>if geom:\<close> perform it.\<close>

fun truthy :: "pyval \<Rightarrow> bool" where
  "truthy PyNone = False"
| "truthy (PyStr s) = (s \<noteq> [])"
| "truthy (PyList xs) = (xs \<noteq> [])"
| "truthy (PyObj n) = True"


text \<open>\<open>str(v)\<close>, as \<open>%s\<close> formats a value; the \<open>repr\<close> of a string is written without
  escapes, and an object without \<open>__str__\<close> shows no address.\<close>

fun join_comma :: "string list \<Rightarrow> string" where
  "join_comma [] = []"
| "join_comma [x] = x"
| "join_comma (x # y # ys) = x @ '', '' @ join_comma (y # ys)"

fun py_repr :: "pyval \<Rightarrow> string" where
  "py_repr PyNone = ''None''"
| "py_repr (PyStr s) = [CHR 0x27] @ s @ [CHR 0x27]"
| "py_repr (PyList xs) = ''['' @ join_comma (map py_repr xs) @ '']''"
| "py_repr (PyObj n) = ''<object>''"

fun py_str :: "pyval \<Rightarrow> string" where
  "py_str (PyStr s) = s"
| "py_str v = py_repr v"




text \<open>A decoded JSON document.\<close>

datatype json = JNull | JBool bool | JNum real | JStr string | JArr "json list"
  | JObj "(string \<times> json) list"

section \<open>Exceptions\<close>

text \<open>
  The five classes imported from \<open>..exceptions\<close>, each with its message, and the
  built-in exceptions the two modules can meet.
\<close>

datatype error =
    BadRequestError string
  | NotFoundError string
  | RateLimitError string
  | GatewayTimeoutError string
  | ServerError string
  | AttributeError string
  | RuntimeError string
  | ValueError string
  | KeyError
  | TypeError
  | ConnectionError string

section \<open>The HTTP layer below \<open>WrappedSession\<close>\<close>

datatype kwval =
    KwParams "(string \<times> pyval) list"
  | KwTimeout "real \<times> real"
  | KwFlag bool

type_synonym kwargs = "(string \<times> kwval) list"

record request =
  req_method :: string
  req_url :: string
  req_kwargs :: kwargs

record response =
  status_code :: int
  resp_text :: string

datatype verify = VerifyDefault | VerifyFile string | VerifyOff

record retry =
  retry_total :: nat
  retry_read :: nat
  backoff_factor :: real
  method_whitelist :: "string set"
  status_forcelist :: "int list"

text \<open>
  A \<open>WrappedSession\<close> object. \<open>ws_id\<close> is the identity of the object; \<open>ws_adapters\<close>
  holds the adapters this code mounts (prefix and retry configuration) and
  \<open>ws_headers\<close> the headers it sets.
\<close>

record wrapped_session =
  ws_id :: nat
  ws_base_url :: string
  ws_timeout :: "(real \<times> real) option"
  ws_adapters :: "(string \<times> retry) list"
  ws_headers :: "(string \<times> pyval) list"
  ws_verify :: verify

text \<open>
  Everything outside the two modules that they read or change:
  the shared \<open>descarteslabs.descartes_auth\<close> object (its \<open>_token\<close>), the allocator of
  object identities, the results of \<open>random.random()\<close>, the file system as
  \<open>open\<close> sees it, \<open>__file__\<close>, \<open>descarteslabs.__version__\<close>, \<open>os.environ\<close>, the
  clock of the cache, and the network: \<open>transport\<close> is the terminal outcome of
  \<open>requests.Session.request\<close> (after the adapter's retries), \<open>http_log\<close> the requests
  issued so far, \<open>json_of\<close> what \<open>Response.json()\<close> decodes.
\<close>

record world =
  auth_token :: pyval
  next_id :: nat
  random_draws :: "nat \<Rightarrow> real"
  draw_ix :: nat
  openable :: "string \<Rightarrow> bool"
  module_file :: string
  version :: string
  environ :: "string \<Rightarrow> string option"
  clock :: real
  transport :: "request \<Rightarrow> error + response"
  http_log :: "request list"
  json_of :: "string \<Rightarrow> error + json"

section \<open>\<open>WrappedSession.request\<close>\<close>

text \<open>The request handed to \<open>requests.Session.request\<close>: lines 33 to 36.\<close>

definition sent_request :: "wrapped_session \<Rightarrow> string \<Rightarrow> string \<Rightarrow> kwargs \<Rightarrow> request" where
  "sent_request self method url kwargs =
     \<lparr>req_method = method,
      req_url = ws_base_url self @ url,
      req_kwargs =
        (case ws_timeout self of
           Some t \<Rightarrow> (if map_of kwargs ''timeout'' = None
                      then kwargs @ [(''timeout'', KwTimeout t)] else kwargs)
         | None \<Rightarrow> kwargs)\<rparr>"

text \<open>\<open>super(WrappedSession, self).request\<close>: the request is issued and answered.\<close>

definition super_request :: "request \<Rightarrow> world \<Rightarrow> (error + response) \<times> world" where
  "super_request req w = (transport w req, w\<lparr>http_log := http_log w @ [req]\<rparr>)"

definition WrappedSession_request ::
  "wrapped_session \<Rightarrow> string \<Rightarrow> string \<Rightarrow> kwargs \<Rightarrow> world \<Rightarrow> (error + response) \<times> world" where
  "WrappedSession_request self method url kwargs w =
     (case super_request (sent_request self method url kwargs) w of
        (Inl e, w1) \<Rightarrow> (Inl e, w1)
      | (Inr resp, w1) \<Rightarrow>
          (if status_code resp = 200 then (Inr resp, w1)
           else if status_code resp = 400 then (Inl (BadRequestError (resp_text resp)), w1)
           else if status_code resp = 404
             then (Inl (NotFoundError (''404 '' @ method @ '' '' @ url)), w1)
           else if status_code resp = 429 then (Inl (RateLimitError (resp_text resp)), w1)
           else if status_code resp = 504
             then (Inl (GatewayTimeoutError
                    (''Your request timed out on the server. '' @
                     ''Consider reducing the complexity of your request.'')), w1)
           else (Inl (ServerError (resp_text resp)), w1)))"

text \<open>\<open>requests.Session.get\<close>: \<open>allow_redirects\<close> defaults to true, then \<open>request\<close>.\<close>

definition session_get ::
  "wrapped_session \<Rightarrow> string \<Rightarrow> kwargs \<Rightarrow> world \<Rightarrow> (error + response) \<times> world" where
  "session_get self url kwargs w =
     WrappedSession_request self ''GET'' url
       (if map_of kwargs ''allow_redirects'' = None
        then kwargs @ [(''allow_redirects'', KwFlag True)] else kwargs) w"

text \<open>The exception class of an outcome, for stating which kind was raised.\<close>

datatype kind = Success | BadRequest | NotFound | RateLimited | GatewayTimeout
  | ServerErrorKind | OtherError

fun kind_of :: "error + response \<Rightarrow> kind" where
  "kind_of (Inr r) = Success"
| "kind_of (Inl (BadRequestError m)) = BadRequest"
| "kind_of (Inl (NotFoundError m)) = NotFound"
| "kind_of (Inl (RateLimitError m)) = RateLimited"
| "kind_of (Inl (GatewayTimeoutError m)) = GatewayTimeout"
| "kind_of (Inl (ServerError m)) = ServerErrorKind"
| "kind_of (Inl e) = OtherError"


section \<open>\<open>Service\<close>\<close>

text \<open>
  A \<open>Service\<close> object. \<open>TIMEOUT\<close> is the class attribute as the object's class
  resolves it; \<open>self.auth\<close> is the shared \<open>descarteslabs.descartes_auth\<close> of the
  world. Properties behave as on the classes of Python 3.
\<close>

record service =
  TIMEOUT :: "real \<times> real"
  base_url :: string
  current_session :: "wrapped_session option"
  session_token :: pyval

text \<open>
  Modelled from the spec: the \<open>token\<close> property of the auth context, which is not
  part of the two modules. The spec gives it as a read of the current token; the
  setter of \<open>Service.token\<close> (line 72) writes \<open>_token\<close>.
\<close>

definition auth_token_read :: "world \<Rightarrow> pyval" where
  "auth_token_read w = auth_token w"

definition Service_token :: "world \<Rightarrow> pyval" where
  "Service_token w = auth_token_read w"

definition Service_set_token :: "pyval \<Rightarrow> world \<Rightarrow> world" where
  "Service_set_token token w = w\<lparr>auth_token := token\<rparr>"

definition Service_init :: "string \<Rightarrow> pyval \<Rightarrow> world \<Rightarrow> service \<times> world" where
  "Service_init url token w =
     (\<lparr>TIMEOUT = (9.5, 30), base_url = url, current_session = None, session_token = PyNone\<rparr>,
      if truthy token then w\<lparr>auth_token := token\<rparr> else w)"

text \<open>\<open>os.path.dirname\<close> and \<open>os.path.join\<close> on POSIX paths.\<close>

definition rstrip_slash :: "string \<Rightarrow> string" where
  "rstrip_slash s = rev (dropWhile (\<lambda>c. c = CHR ''/'') (rev s))"

definition os_path_dirname :: "string \<Rightarrow> string" where
  "os_path_dirname p =
     (let head = rev (dropWhile (\<lambda>c. c \<noteq> CHR ''/'') (rev p))
      in if filter (\<lambda>c. c \<noteq> CHR ''/'') head \<noteq> [] then rstrip_slash head else head)"

definition os_path_join :: "string \<Rightarrow> string \<Rightarrow> string" where
  "os_path_join a b =
     (if take 1 b = ''/'' then b
      else if a = [] \<or> take 1 (rev a) = ''/'' then a @ b
      else a @ ''/'' @ b)"

text \<open>\<open>random.uniform(a, b)\<close> is \<open>a + (b - a) * random()\<close>, over the reals here.\<close>

definition random_uniform :: "real \<Rightarrow> real \<Rightarrow> world \<Rightarrow> real \<times> world" where
  "random_uniform a b w =
     (a + (b - a) * random_draws w (draw_ix w), w\<lparr>draw_ix := Suc (draw_ix w)\<rparr>)"

text \<open>\<open>WrappedSession(base_url, timeout=...)\<close>: a new object.\<close>

definition WrappedSession_init ::
  "string \<Rightarrow> (real \<times> real) option \<Rightarrow> world \<Rightarrow> wrapped_session \<times> world" where
  "WrappedSession_init url timeout w =
     (\<lparr>ws_id = next_id w, ws_base_url = url, ws_timeout = timeout,
       ws_adapters = [], ws_headers = [], ws_verify = VerifyDefault\<rparr>,
      w\<lparr>next_id := Suc (next_id w)\<rparr>)"

text \<open>Assignment to a key of a dictionary kept in insertion order.\<close>

fun dict_set :: "'k \<Rightarrow> 'v \<Rightarrow> ('k \<times> 'v) list \<Rightarrow> ('k \<times> 'v) list" where
  "dict_set k v [] = [(k, v)]"
| "dict_set k v ((k', v') # kvs) =
     (if k' = k then (k, v) # kvs else (k', v') # dict_set k v kvs)"

definition Service_build_session :: "'a service_scheme \<Rightarrow> world \<Rightarrow> wrapped_session \<times> world" where
  "Service_build_session self w =
     (let (s, w1) = WrappedSession_init (base_url self) (Some (TIMEOUT self)) w;
          (factor, w2) = random_uniform 1 3 w1;
          retries = \<lparr>retry_total = 5, retry_read = 2, backoff_factor = factor,
                     method_whitelist = {''HEAD'', ''TRACE'', ''GET'', ''POST'',
                                         ''PUT'', ''OPTIONS'', ''DELETE''},
                     status_forcelist = [429, 500, 502, 503]\<rparr>;
          s1 = s\<lparr>ws_adapters := dict_set ''https://'' retries (ws_adapters s)\<rparr>;
          s2 = s1\<lparr>ws_headers :=
                  dict_set ''User-Agent'' (PyStr (''dl-python/'' @ version w2))
                    (dict_set ''Content-Type'' (PyStr ''application/json'')
                      (dict_set ''Authorization'' (Service_token w2) (ws_headers s1)))\<rparr>;
          here = os_path_dirname (module_file w2);
          file = os_path_join here ''gd_bundle-g2-g1.crt''
      in if openable w2 file then (s2\<lparr>ws_verify := VerifyFile file\<rparr>, w2)
         else (s2\<lparr>ws_verify := VerifyOff\<rparr>, w2))"

text \<open>The \<open>session\<close> property, lines 74 to 83. A session object is always true.\<close>

definition Service_session ::
  "'a service_scheme \<Rightarrow> world \<Rightarrow> wrapped_session \<times> 'a service_scheme \<times> world" where
  "Service_session self w =
     (let self1 = (if session_token self \<noteq> Service_token w
                   then self\<lparr>current_session := None\<rparr> else self)
      in case current_session self1 of
           Some s \<Rightarrow> (s, self1, w)
         | None \<Rightarrow>
             (let (s, w1) = Service_build_session self1 w;
                  self2 = self1\<lparr>current_session := Some s\<rparr>;
                  self3 = self2\<lparr>session_token := Service_token w1\<rparr>
              in (s, self3, w1)))"

section \<open>The cache of \<open>cachetools\<close>\<close>

text \<open>
  Modelled from the spec: \<open>cachetools.TTLCache\<close>, \<open>cachetools.keys.hashkey\<close> and
  \<open>cachetools.cachedmethod\<close> are imported by \<open>places.py\<close> and not part of it. An
  entry is a key, its value and its expiry time; the list is kept from least to most
  recently used. Expired entries are purged on any access; a live entry is returned
  and becomes the most recently used; an insert into a full store evicts the least
  recently used live entry first, and a store of size zero takes no value.
\<close>

type_synonym cachekey = "pyval list"

record ttlcache =
  maxsize :: nat
  ttl :: real
  entries :: "(cachekey \<times> json \<times> real) list"

text \<open>Modelled from the spec: \<open>TTLCache(maxsize, ttl)\<close>, an empty store of fixed capacity.\<close>

definition TTLCache :: "nat \<Rightarrow> real \<Rightarrow> ttlcache" where
  "TTLCache msize t = \<lparr>maxsize = msize, ttl = t, entries = []\<rparr>"

text \<open>Modelled from the spec: the purge of expired entries, those whose expiry time has
  passed.\<close>

definition expire :: "real \<Rightarrow> ttlcache \<Rightarrow> ttlcache" where
  "expire time c = c\<lparr>entries := filter (\<lambda>(k, v, e). \<not> e < time) (entries c)\<rparr>"

text \<open>Modelled from the spec: \<open>cache[key]\<close>. Only a live entry is found; it becomes the
  most recently used. A missing key raises \<open>KeyError\<close>.\<close>

definition TTLCache_getitem :: "ttlcache \<Rightarrow> cachekey \<Rightarrow> real \<Rightarrow> (error + json) \<times> ttlcache" where
  "TTLCache_getitem c k time =
     (let c1 = expire time c
      in case map_of (entries c1) k of
           None \<Rightarrow> (Inl KeyError, c1)
         | Some (v, e) \<Rightarrow>
             (Inr v, c1\<lparr>entries := filter (\<lambda>x. fst x \<noteq> k) (entries c1) @ [(k, v, e)]\<rparr>))"

text \<open>Modelled from the spec: \<open>cache[key] = value\<close>. A new key in a full store evicts
  from the least recently used end; the entry expires \<open>ttl\<close> after the insert. A store
  of capacity zero raises \<open>ValueError\<close>.\<close>

definition TTLCache_setitem :: "ttlcache \<Rightarrow> cachekey \<Rightarrow> json \<Rightarrow> real \<Rightarrow> error + ttlcache" where
  "TTLCache_setitem c k v time =
     (let c1 = expire time c
      in if maxsize c1 < 1 then Inl (ValueError ''value too large'')
         else
           (let kept = (if map_of (entries c1) k = None
                        then drop (length (entries c1) + 1 - maxsize c1) (entries c1)
                        else filter (\<lambda>x. fst x \<noteq> k) (entries c1))
            in Inr (c1\<lparr>entries := kept @ [(k, v, time + ttl c1)]\<rparr>)))"

text \<open>
  Modelled from the spec: the key is the operation name and the positional arguments
  in order, then the keyword arguments as a mapping sorted by name, behind a marker
  object (here the object \<open>0\<close>). A dictionary has one item per name, so sorting its
  items sorts them by name.
\<close>

definition kwmark :: pyval where
  "kwmark = PyObj 0"

definition hashkey :: "pyval list \<Rightarrow> (string \<times> pyval) list \<Rightarrow> cachekey" where
  "hashkey args kwargs =
     (if kwargs \<noteq> []
      then args @ kwmark # concat (map (\<lambda>(k, v). [PyStr k, v]) (sort_key fst kwargs))
      else args)"

text \<open>A list cannot be hashed, so a key holding one cannot be looked up.\<close>

fun hashable :: "pyval \<Rightarrow> bool" where
  "hashable (PyList xs) = False"
| "hashable v = True"

section \<open>\<open>Places\<close>\<close>

record places = service +
  cache :: ttlcache

type_synonym 'a pymethod = "places \<Rightarrow> world \<Rightarrow> (error + 'a) \<times> places \<times> world"

text \<open>
  Modelled from the spec: \<open>cachedmethod(attrgetter('cache'), key=partial(hashkey, name))\<close>
  around \<open>method\<close>, called as \<open>self.name(*args, **kwargs)\<close>. A live entry for the key
  is returned without calling the method; otherwise the method is called once, and
  its result is stored unless it raises.
\<close>

definition cachedmethod ::
  "string \<Rightarrow> json pymethod \<Rightarrow> pyval list \<Rightarrow> (string \<times> pyval) list \<Rightarrow> json pymethod" where
  "cachedmethod name method args kwargs self w =
     (if map_of kwargs ''self'' \<noteq> None then (Inl TypeError, self, w)
      else
        (let k = hashkey (PyStr name # args) kwargs
         in if filter (\<lambda>x. \<not> hashable x) k \<noteq> [] then (Inl TypeError, self, w)
            else
              (case TTLCache_getitem (cache self) k (clock w) of
                 (Inr v, c1) \<Rightarrow> (Inr v, self\<lparr>cache := c1\<rparr>, w)
               | (Inl e, c1) \<Rightarrow>
                   (case method (self\<lparr>cache := c1\<rparr>) w of
                      (Inl e, self1, w1) \<Rightarrow> (Inl e, self1, w1)
                    | (Inr v, self1, w1) \<Rightarrow>
                        (case TTLCache_setitem (cache self1) k v (clock w1) of
                           Inl e \<Rightarrow> (Inr v, self1, w1)
                         | Inr c2 \<Rightarrow> (Inr v, self1\<lparr>cache := c2\<rparr>, w1))))))"

text \<open>
  How a call binds the parameters of a method after \<open>self\<close>: the required names, the
  names with defaults, whether the method takes \<open>**kwargs\<close>; the result is the bound
  parameters and the keyword arguments left for \<open>**kwargs\<close>.
\<close>

definition bind_args ::
  "string list \<Rightarrow> (string \<times> pyval) list \<Rightarrow> bool \<Rightarrow> pyval list \<Rightarrow> (string \<times> pyval) list
   \<Rightarrow> error + (string \<times> pyval) list \<times> (string \<times> pyval) list" where
  "bind_args req opt varkw args kwargs =
     (let names = req @ map fst opt;
          pos = zip names args;
          named = filter (\<lambda>kv. fst kv \<in> set names) kwargs;
          extra = filter (\<lambda>kv. fst kv \<notin> set names) kwargs
      in if length names < length args then Inl TypeError
         else if filter (\<lambda>kv. fst kv \<in> set (''self'' # map fst pos)) kwargs \<noteq> [] then Inl TypeError
         else if \<not> varkw \<and> extra \<noteq> [] then Inl TypeError
         else if filter (\<lambda>n. map_of (pos @ named) n = None) req \<noteq> [] then Inl TypeError
         else Inr (pos @ named @ opt, extra))"

definition arg :: "(string \<times> pyval) list \<Rightarrow> string \<Rightarrow> pyval" where
  "arg bound n = (case map_of bound n of Some v \<Rightarrow> v | None \<Rightarrow> PyNone)"

definition Places_init ::
  "string option \<Rightarrow> pyval \<Rightarrow> nat \<Rightarrow> real \<Rightarrow> world \<Rightarrow> places \<times> world" where
  "Places_init url token msize t w =
     (let url1 = (case url of
                    None \<Rightarrow> (case environ w ''DESCARTESLABS_PLACES_URL'' of
                               Some u \<Rightarrow> u
                             | None \<Rightarrow> ''https://platform-services.descarteslabs.com/waldo/dev'')
                  | Some u \<Rightarrow> u);
          (s, w1) = Service_init url1 token w
      in (\<lparr>TIMEOUT = (9.5, 120), base_url = base_url s,
           current_session = current_session s, session_token = session_token s,
           cache = TTLCache msize t\<rparr>, w1))"

text \<open>
  Attribute lookup on a \<open>Places\<close> object: the attributes the two constructors assign
  (lines 58 to 64 of \<open>service.py\<close>, line 37 of \<open>places.py\<close>), then the names the classes
  \<open>Places\<close> and \<open>Service\<close> define; any other name raises \<open>AttributeError\<close>, which
  carries the name here.
\<close>

datatype attr = AttrValue pyval | AttrAuth | AttrSession wrapped_session
  | AttrCache ttlcache | AttrTimeout "real \<times> real" | AttrClassMember

definition instance_dict :: "places \<Rightarrow> (string \<times> attr) list" where
  "instance_dict self =
     [(''auth'', AttrAuth),
      (''base_url'', AttrValue (PyStr (base_url self))),
      (''current_session'',
         (case current_session self of None \<Rightarrow> AttrValue PyNone | Some s \<Rightarrow> AttrSession s)),
      (''session_token'', AttrValue (session_token self)),
      (''cache'', AttrCache (cache self))]"

definition class_members :: "string list" where
  "class_members =
     [''__init__'', ''placetypes'', ''random'', ''find'', ''shape'', ''prefix'', ''sources'',
      ''categories'', ''metrics'', ''data'', ''statistics'', ''value'',
      ''token'', ''session'', ''build_session'']"

definition getattr :: "places \<Rightarrow> string \<Rightarrow> error + attr" where
  "getattr self name =
     (case map_of (instance_dict self) name of
        Some a \<Rightarrow> Inr a
      | None \<Rightarrow>
          (if name = ''TIMEOUT'' then Inr (AttrTimeout (TIMEOUT self))
           else if name \<in> set class_members then Inr AttrClassMember
           else Inl (AttributeError name)))"

text \<open>\<open>str\<close> of an attribute, as \<open>%s\<close> formats it.\<close>

fun attr_str :: "attr \<Rightarrow> string" where
  "attr_str (AttrValue v) = py_str v"
| "attr_str AttrAuth = ''<Auth object>''"
| "attr_str (AttrSession s) = ''<WrappedSession object>''"
| "attr_str (AttrCache c) = ''<TTLCache object>''"
| "attr_str (AttrTimeout t) = ''<tuple>''"
| "attr_str AttrClassMember = ''<bound method>''"

text \<open>
  The shape every endpoint method shares:
  \<open>r = self.session.get(fmt % (self.url, ...), **kwargs)\<close>. Python evaluates
  \<open>self.session\<close>, then the argument \<open>self.url\<close>, then makes the call.
\<close>

definition session_get_url ::
  "(string \<Rightarrow> string) \<Rightarrow> kwargs \<Rightarrow> places \<Rightarrow> world \<Rightarrow> (error + response) \<times> places \<times> world" where
  "session_get_url fmt kwargs self w =
     (let (s, self1, w1) = Service_session self w
      in case getattr self1 ''url'' of
           Inl e \<Rightarrow> (Inl e, self1, w1)
         | Inr u \<Rightarrow>
             (case session_get s (fmt (attr_str u)) kwargs w1 of
                (r, w2) \<Rightarrow> (r, self1, w2)))"

text \<open>\<open>return r.json()\<close> after such a call.\<close>

definition return_json :: "(error + response) \<times> places \<times> world \<Rightarrow> (error + json) \<times> places \<times> world" where
  "return_json x =
     (case x of
        (Inl e, self1, w1) \<Rightarrow> (Inl e, self1, w1)
      | (Inr r, self1, w1) \<Rightarrow> (json_of w1 (resp_text r), self1, w1))"

section \<open>The endpoint methods of \<open>Places\<close>\<close>



text \<open>The bodies of the three cached methods, lines 95, 127 and 149 to 156.\<close>

definition find_body :: "pyval \<Rightarrow> (string \<times> pyval) list \<Rightarrow> json pymethod" where
  "find_body path kwargs self w =
     return_json (session_get_url (\<lambda>u. u @ ''/find/'' @ py_str path)
       [(''params'', KwParams kwargs), (''timeout'', KwTimeout (TIMEOUT self))] self w)"



text \<open>The cached methods as a caller reaches them: through the decorator.\<close>

definition Places_find :: "pyval list \<Rightarrow> (string \<times> pyval) list \<Rightarrow> json pymethod" where
  "Places_find args kwargs =
     cachedmethod ''find''
       (\<lambda>self w. case bind_args [''path''] [] True args kwargs of
                    Inl e \<Rightarrow> (Inl e, self, w)
                  | Inr (b, extra) \<Rightarrow> find_body (arg b ''path'') extra self w)
       args kwargs"










section \<open>Notions used to state the properties\<close>

text \<open>
  A session held by a service is an object that exists: its identity was handed out
  before the next one the allocator will give.
\<close>

definition allocated :: "'a service_scheme \<Rightarrow> world \<Rightarrow> bool" where
  "allocated self w =
     (case current_session self of None \<Rightarrow> True | Some s \<Rightarrow> ws_id s < next_id w)"

text \<open>
  A call fails on the lookup of \<open>url\<close> before any request is issued: it raises
  \<open>AttributeError\<close>, the log of requests is as before, and so is the cache.
\<close>

definition fails_before_http :: "json pymethod \<Rightarrow> places \<Rightarrow> world \<Rightarrow> bool" where
  "fails_before_http m self w =
     (fst (m self w) = Inl (AttributeError ''url'')
      \<and> http_log (snd (snd (m self w))) = http_log w
      \<and> entries (cache (fst (snd (m self w)))) = entries (cache self))"

text \<open>
  A call of a cached method that Python accepts: the arguments bind to the
  parameters and the key can be hashed.
\<close>

definition accepted ::
  "string \<Rightarrow> string list \<Rightarrow> (string \<times> pyval) list \<Rightarrow> bool \<Rightarrow> pyval list
   \<Rightarrow> (string \<times> pyval) list \<Rightarrow> bool" where
  "accepted name req opt varkw args kwargs =
     (bind_args req opt varkw args kwargs \<noteq> Inl TypeError
      \<and> filter (\<lambda>x. \<not> hashable x) (hashkey (PyStr name # args) kwargs) = [])"

text \<open>A world, a session and a service to evaluate the model on.\<close>

definition example_world :: world where
  "example_world =
     \<lparr>auth_token = PyStr ''token-1'', next_id = 0, random_draws = (\<lambda>n. 1 / 2), draw_ix = 0,
      openable = (\<lambda>p. p = ''/pkg/services/gd_bundle-g2-g1.crt''),
      module_file = ''/pkg/services/service.py'', version = ''0.2.0'',
      environ = (\<lambda>n. None), clock = 0,
      transport = (\<lambda>r. Inr \<lparr>status_code = 200, resp_text = ''[]''\<rparr>),
      http_log = [], json_of = (\<lambda>t. Inr (JArr []))\<rparr>"

definition answering :: "int \<Rightarrow> string \<Rightarrow> world" where
  "answering status body =
     example_world\<lparr>transport := (\<lambda>r. Inr \<lparr>status_code = status, resp_text = body\<rparr>)\<rparr>"

definition example_session :: wrapped_session where
  "example_session =
     \<lparr>ws_id = 0, ws_base_url = ''https://host/waldo'', ws_timeout = Some (9.5, 30),
      ws_adapters = [], ws_headers = [], ws_verify = VerifyOff\<rparr>"

definition example_service :: service where
  "example_service = fst (Service_init ''https://host/waldo'' PyNone example_world)"

definition example_places :: places where
  "example_places = fst (Places_init None PyNone 10 600 example_world)"

section \<open>The outcome of a request\<close>

lemma request_result:
  assumes "transport w (sent_request self method url kwargs) = Inr resp"
  shows "fst (WrappedSession_request self method url kwargs w) =
     (if status_code resp = 200 then Inr resp
      else if status_code resp = 400 then Inl (BadRequestError (resp_text resp))
      else if status_code resp = 404 then Inl (NotFoundError (''404 '' @ method @ '' '' @ url))
      else if status_code resp = 429 then Inl (RateLimitError (resp_text resp))
      else if status_code resp = 504
        then Inl (GatewayTimeoutError
               (''Your request timed out on the server. '' @
                ''Consider reducing the complexity of your request.''))
      else Inl (ServerError (resp_text resp)))"
  using assms by (simp add: WrappedSession_request_def super_request_def)

lemma answering_transport:
  "transport (answering status body) req = Inr \<lparr>status_code = status, resp_text = body\<rparr>"
  by (simp add: answering_def)

text \<open>
  C2. A terminal response of status 200 is returned as it is; 400 raises
  \<open>BadRequestError\<close>, 404 \<open>NotFoundError\<close>, 429 \<open>RateLimitError\<close>, 504
  \<open>GatewayTimeoutError\<close>, and any other status outside 200 to 299 \<open>ServerError\<close>. Two
  responses of the same status raise the same kind whatever their bodies.
\<close>

theorem request_raises_by_status:
  assumes "transport w (sent_request self method url kwargs) = Inr resp"
  shows "(status_code resp = 200 \<longrightarrow>
            fst (WrappedSession_request self method url kwargs w) = Inr resp)
       \<and> (status_code resp = 400 \<longrightarrow>
            kind_of (fst (WrappedSession_request self method url kwargs w)) = BadRequest)
       \<and> (status_code resp = 404 \<longrightarrow>
            kind_of (fst (WrappedSession_request self method url kwargs w)) = NotFound)
       \<and> (status_code resp = 429 \<longrightarrow>
            kind_of (fst (WrappedSession_request self method url kwargs w)) = RateLimited)
       \<and> (status_code resp = 504 \<longrightarrow>
            kind_of (fst (WrappedSession_request self method url kwargs w)) = GatewayTimeout)
       \<and> (status_code resp \<notin> {400, 404, 429, 504}
            \<and> \<not> (200 \<le> status_code resp \<and> status_code resp < 300) \<longrightarrow>
            kind_of (fst (WrappedSession_request self method url kwargs w)) = ServerErrorKind)
       \<and> (\<forall>w' resp'. transport w' (sent_request self method url kwargs) = Inr resp'
            \<and> status_code resp' = status_code resp \<longrightarrow>
            kind_of (fst (WrappedSession_request self method url kwargs w')) =
            kind_of (fst (WrappedSession_request self method url kwargs w)))"
  using assms by (auto simp add: request_result)

theorem request_raises_by_status_witness:
  "fst (WrappedSession_request example_session ''GET'' ''/find/x'' [] (answering 200 ''[]''))
     = Inr \<lparr>status_code = 200, resp_text = ''[]''\<rparr>
   \<and> kind_of (fst (WrappedSession_request example_session ''GET'' ''/find/x'' []
        (answering 400 ''bad''))) = BadRequest
   \<and> kind_of (fst (WrappedSession_request example_session ''GET'' ''/find/x'' []
        (answering 404 ''gone''))) = NotFound
   \<and> kind_of (fst (WrappedSession_request example_session ''GET'' ''/find/x'' []
        (answering 429 ''slow down''))) = RateLimited
   \<and> kind_of (fst (WrappedSession_request example_session ''GET'' ''/find/x'' []
        (answering 504 ''late''))) = GatewayTimeout
   \<and> kind_of (fst (WrappedSession_request example_session ''GET'' ''/find/x'' []
        (answering 500 ''boom''))) = ServerErrorKind"
  using
    request_raises_by_status [OF answering_transport [of 200 "''[]''"], of example_session "''GET''" "''/find/x''" "[]"]
    request_raises_by_status [OF answering_transport [of 400 "''bad''"], of example_session "''GET''" "''/find/x''" "[]"]
    request_raises_by_status [OF answering_transport [of 404 "''gone''"], of example_session "''GET''" "''/find/x''" "[]"]
    request_raises_by_status [OF answering_transport [of 429 "''slow down''"], of example_session "''GET''" "''/find/x''" "[]"]
    request_raises_by_status [OF answering_transport [of 504 "''late''"], of example_session "''GET''" "''/find/x''" "[]"]
    request_raises_by_status [OF answering_transport [of 500 "''boom''"], of example_session "''GET''" "''/find/x''" "[]"]
  by simp




text \<open>
  C9. A response of a status from 200 to 299 other than 200 raises \<open>ServerError\<close>:
  only 200 is a success.
\<close>

theorem other_2xx_raises_server_error:
  assumes "transport w (sent_request self method url kwargs) = Inr resp"
    and "200 \<le> status_code resp" and "status_code resp < 300" and "status_code resp \<noteq> 200"
  shows "fst (WrappedSession_request self method url kwargs w) = Inl (ServerError (resp_text resp))"
  using assms by (simp add: request_result)

theorem other_2xx_raises_server_error_witness:
  "fst (WrappedSession_request example_session ''GET'' ''/find/x'' [] (answering 204 []))
     = Inl (ServerError [])"
proof -
  have h: "200 \<le> status_code \<lparr>status_code = 204, resp_text = []\<rparr>"
    "status_code \<lparr>status_code = 204, resp_text = []\<rparr> < 300"
    "status_code \<lparr>status_code = 204, resp_text = []\<rparr> \<noteq> 200"
    by simp_all
  show ?thesis
    using other_2xx_raises_server_error [OF answering_transport h,
        of example_session "''GET''" "''/find/x''" "[]"]
    by simp
qed

section \<open>The session of a service\<close>

lemma build_session_id: "ws_id (fst (Service_build_session self w)) = next_id w"
  by (simp add: Service_build_session_def WrappedSession_init_def random_uniform_def Let_def
      split: prod.splits)

lemma build_session_next_id: "next_id (snd (Service_build_session self w)) = Suc (next_id w)"
  by (simp add: Service_build_session_def WrappedSession_init_def random_uniform_def Let_def
      split: prod.splits)

lemma build_session_token: "auth_token (snd (Service_build_session self w)) = auth_token w"
  by (simp add: Service_build_session_def WrappedSession_init_def random_uniform_def Let_def
      split: prod.splits)

lemma build_session_log: "http_log (snd (Service_build_session self w)) = http_log w"
  by (simp add: Service_build_session_def WrappedSession_init_def random_uniform_def Let_def
      split: prod.splits)



lemma build_session_verify:
  "ws_verify (fst (Service_build_session self w)) =
     (if openable w (os_path_join (os_path_dirname (module_file w)) ''gd_bundle-g2-g1.crt'')
      then VerifyFile (os_path_join (os_path_dirname (module_file w)) ''gd_bundle-g2-g1.crt'')
      else VerifyOff)"
  by (simp add: Service_build_session_def WrappedSession_init_def random_uniform_def Let_def
      split: prod.splits)

text \<open>The two paths through the \<open>session\<close> property.\<close>

lemma session_cases:
  "Service_session self w =
     (if session_token self \<noteq> Service_token w \<or> current_session self = None
      then (let self1 = (if session_token self \<noteq> Service_token w
                         then self\<lparr>current_session := None\<rparr> else self);
                b = Service_build_session self1 w
            in (fst b,
                self1\<lparr>current_session := Some (fst b), session_token := Service_token (snd b)\<rparr>,
                snd b))
      else (the (current_session self), self, w))"
  by (auto simp add: Service_session_def Let_def split: option.splits prod.splits)

lemma session_token_after:
  "session_token (fst (snd (Service_session self w))) = Service_token w"
  by (auto simp add: session_cases Let_def Service_token_def auth_token_read_def
      build_session_token)

lemma session_current_after:
  "current_session (fst (snd (Service_session self w))) = Some (fst (Service_session self w))"
  by (auto simp add: session_cases Let_def)

lemma session_world_token: "auth_token (snd (snd (Service_session self w))) = auth_token w"
  by (auto simp add: session_cases Let_def build_session_token)

lemma session_id_bound:
  "allocated self w \<Longrightarrow>
   ws_id (fst (Service_session self w)) < next_id (snd (snd (Service_session self w)))"
  by (auto simp add: session_cases Let_def build_session_id build_session_next_id
      allocated_def)

lemma session_reuse:
  "session_token self = Service_token w \<Longrightarrow> current_session self = Some s \<Longrightarrow>
   Service_session self w = (s, self, w)"
  by (simp add: session_cases)

lemma session_rebuild_id:
  "session_token self \<noteq> Service_token w \<Longrightarrow> ws_id (fst (Service_session self w)) = next_id w"
  by (simp add: session_cases Let_def build_session_id)

lemma session_log: "http_log (snd (snd (Service_session self w))) = http_log w"
  by (simp add: session_cases Let_def build_session_log)

lemma session_cache: "cache (fst (snd (Service_session self w))) = cache self"
  by (simp add: session_cases Let_def)

text \<open>
  C1. Take any service whose session, if it holds one, is an existing object. Read
  \<open>session\<close>, set the shared token to a different value, read \<open>session\<close> again and
  once more: the first two results are distinct objects and the third is the second.
  A read builds a session exactly when the service holds none or the token it
  remembered differs from the current one; it then remembers the current token.
  Otherwise it returns the session it holds and changes nothing.
\<close>

theorem session_rebuilt_on_token_change:
  assumes "allocated self w" and "token' \<noteq> Service_token w"
  shows "(let (s1, self1, w1) = Service_session self w;
              (s2, self2, w2) = Service_session self1 (Service_set_token token' w1);
              (s3, self3, w3) = Service_session self2 w2
          in ws_id s1 \<noteq> ws_id s2 \<and> s3 = s2)
       \<and> (current_session self = None \<or> session_token self \<noteq> Service_token w \<longrightarrow>
            ws_id (fst (Service_session self w)) = next_id w
            \<and> next_id (snd (snd (Service_session self w))) = Suc (next_id w)
            \<and> session_token (fst (snd (Service_session self w))) = Service_token w)
       \<and> (\<not> (current_session self = None \<or> session_token self \<noteq> Service_token w) \<longrightarrow>
            current_session self = Some (fst (Service_session self w))
            \<and> snd (Service_session self w) = (self, w))"
proof -
  obtain s1 self1 w1 where r1: "Service_session self w = (s1, self1, w1)"
    by (cases "Service_session self w")
  let ?w1' = "Service_set_token token' w1"
  obtain s2 self2 w2 where r2: "Service_session self1 ?w1' = (s2, self2, w2)"
    by (cases "Service_session self1 ?w1'")
  have tok1: "session_token self1 = Service_token w"
    using session_token_after [of self w] r1 by simp
  have id1: "ws_id s1 < next_id w1"
    using session_id_bound [OF assms(1)] r1 by simp
  have ne: "session_token self1 \<noteq> Service_token ?w1'"
    using tok1 assms(2) by (simp add: Service_token_def auth_token_read_def Service_set_token_def)
  have id2: "ws_id s2 = next_id w1"
    using session_rebuild_id [OF ne] r2 by (simp add: Service_set_token_def)
  have tok2: "session_token self2 = Service_token ?w1'"
    using session_token_after [of self1 ?w1'] r2 by simp
  have w2tok: "Service_token w2 = Service_token ?w1'"
    using session_world_token [of self1 ?w1'] r2
    by (simp add: Service_token_def auth_token_read_def)
  have cur2: "current_session self2 = Some s2"
    using session_current_after [of self1 ?w1'] r2 by simp
  have r3: "Service_session self2 w2 = (s2, self2, w2)"
    using session_reuse [of self2 w2 s2] tok2 w2tok cur2 by simp
  have first: "(let (s1, self1, w1) = Service_session self w;
                    (s2, self2, w2) = Service_session self1 (Service_set_token token' w1);
                    (s3, self3, w3) = Service_session self2 w2
                in ws_id s1 \<noteq> ws_id s2 \<and> s3 = s2)"
    using r1 r2 r3 id1 id2 by simp
  have second: "current_session self = None \<or> session_token self \<noteq> Service_token w \<longrightarrow>
            ws_id (fst (Service_session self w)) = next_id w
            \<and> next_id (snd (snd (Service_session self w))) = Suc (next_id w)
            \<and> session_token (fst (snd (Service_session self w))) = Service_token w"
    by (auto simp add: session_cases Let_def build_session_id build_session_next_id
        Service_token_def auth_token_read_def build_session_token)
  have third: "\<not> (current_session self = None \<or> session_token self \<noteq> Service_token w) \<longrightarrow>
            current_session self = Some (fst (Service_session self w))
            \<and> snd (Service_session self w) = (self, w)"
    by (auto simp add: session_cases)
  show ?thesis using first second third by blast
qed

theorem session_rebuilt_on_token_change_witness:
  "(let (s1, self1, w1) = Service_session example_service example_world;
        (s2, self2, w2) = Service_session self1 (Service_set_token (PyStr ''token-2'') w1);
        (s3, self3, w3) = Service_session self2 w2
    in ws_id s1 \<noteq> ws_id s2 \<and> s3 = s2)
   \<and> ws_id (fst (Service_session example_service example_world)) = 0"
proof -
  have a: "allocated example_service example_world"
    by (simp add: allocated_def example_service_def Service_init_def)
  have t: "PyStr ''token-2'' \<noteq> Service_token example_world"
    by (simp add: Service_token_def auth_token_read_def example_world_def)
  have n: "current_session example_service = None"
    by (simp add: example_service_def Service_init_def)
  have z: "next_id example_world = 0"
    by (simp add: example_world_def)
  show ?thesis
    using session_rebuilt_on_token_change [OF a t] n z by simp
qed



text \<open>
  C7. Building a session always returns a session. It verifies TLS against the
  bundled file next to the module when \<open>open\<close> succeeds on it, and has verification
  switched off when \<open>open\<close> fails.
\<close>

theorem build_session_trust_anchor:
  "(openable w (os_path_join (os_path_dirname (module_file w)) ''gd_bundle-g2-g1.crt'') \<longrightarrow>
      ws_verify (fst (Service_build_session self w)) =
        VerifyFile (os_path_join (os_path_dirname (module_file w)) ''gd_bundle-g2-g1.crt''))
   \<and> (\<not> openable w (os_path_join (os_path_dirname (module_file w)) ''gd_bundle-g2-g1.crt'') \<longrightarrow>
      ws_verify (fst (Service_build_session self w)) = VerifyOff)"
  by (simp add: build_session_verify)

theorem build_session_trust_anchor_witness:
  "ws_verify (fst (Service_build_session example_service example_world))
     = VerifyFile ''/pkg/services/gd_bundle-g2-g1.crt''
   \<and> ws_verify (fst (Service_build_session example_service
        (example_world\<lparr>openable := (\<lambda>p. False)\<rparr>))) = VerifyOff"
proof -
  have p: "os_path_join (os_path_dirname (module_file example_world)) ''gd_bundle-g2-g1.crt''
             = ''/pkg/services/gd_bundle-g2-g1.crt''"
    by (simp add: example_world_def os_path_dirname_def os_path_join_def rstrip_slash_def)
  have o: "openable example_world ''/pkg/services/gd_bundle-g2-g1.crt''"
    by (simp add: example_world_def)
  show ?thesis
    using build_session_trust_anchor [of example_world example_service]
      build_session_trust_anchor [of "example_world\<lparr>openable := (\<lambda>p. False)\<rparr>" example_service]
      p o by simp
qed

section \<open>The cache key\<close>

lemma sort_key_fst_unique:
  fixes xs ys :: "(string \<times> pyval) list"
  assumes "distinct (map fst xs)" "distinct (map fst ys)" "set xs = set ys"
  shows "sort_key fst xs = sort_key fst ys"
proof -
  let ?a = "sort_key fst xs" and ?b = "sort_key fst ys"
  have "map fst ?a = map fst ?b"
  proof (rule sorted_distinct_set_unique)
    show "sorted (map fst ?a)" by simp
    show "sorted (map fst ?b)" by simp
    show "distinct (map fst ?a)" using assms(1) by (simp add: distinct_map)
    show "distinct (map fst ?b)" using assms(2) by (simp add: distinct_map)
    show "set (map fst ?a) = set (map fst ?b)" using assms(3) by simp
  qed
  moreover have "inj_on fst (set ?a \<union> set ?b)"
    using assms by (simp add: distinct_map)
  ultimately show ?thesis by (rule map_inj_on)
qed

text \<open>
  C5. Two dictionaries of keyword arguments with the same items, in whatever order
  they were filled, give the same key for any operation name and positional
  arguments, so the two calls look up the same entry of any cache.
\<close>

theorem hashkey_keyword_order:
  assumes "distinct (map fst kwargs)" and "distinct (map fst kwargs')"
    and "set kwargs = set kwargs'"
  shows "hashkey (PyStr name # args) kwargs = hashkey (PyStr name # args) kwargs'
       \<and> TTLCache_getitem c (hashkey (PyStr name # args) kwargs) time =
         TTLCache_getitem c (hashkey (PyStr name # args) kwargs') time"
proof -
  have e: "(kwargs = []) = (kwargs' = [])" using assms(3) by auto
  have k: "hashkey (PyStr name # args) kwargs = hashkey (PyStr name # args) kwargs'"
    using e sort_key_fst_unique [OF assms] by (simp add: hashkey_def)
  show ?thesis by (simp only: k)
qed

theorem hashkey_keyword_order_witness:
  "hashkey [PyStr ''find'', PyStr ''morocco'']
     [(''placetype'', PyStr ''country''), (''geom'', PyStr ''low'')]
   = hashkey [PyStr ''find'', PyStr ''morocco'']
     [(''geom'', PyStr ''low''), (''placetype'', PyStr ''country'')]"
proof -
  have d1: "distinct (map fst [(''placetype'', PyStr ''country''), (''geom'', PyStr ''low'')])"
    by simp
  have d2: "distinct (map fst [(''geom'', PyStr ''low''), (''placetype'', PyStr ''country'')])"
    by simp
  have s: "set [(''placetype'', PyStr ''country''), (''geom'', PyStr ''low'')]
         = set [(''geom'', PyStr ''low''), (''placetype'', PyStr ''country'')]"
    by auto
  show ?thesis
    using hashkey_keyword_order [OF d1 d2 s, of "''find''" "[PyStr ''morocco'']"]
    by (rule conjunct1)
qed

section \<open>The endpoint methods\<close>

lemma getattr_url: "getattr self ''url'' = Inl (AttributeError ''url'')"
  by (simp add: getattr_def instance_dict_def class_members_def)

lemma session_get_url_fails:
  "session_get_url fmt kw self w =
     (Inl (AttributeError ''url''),
      fst (snd (Service_session self w)), snd (snd (Service_session self w)))"
  by (simp add: session_get_url_def getattr_url split: prod.splits)

lemma return_json_fails:
  "return_json (session_get_url fmt kw self w) =
     (Inl (AttributeError ''url''),
      fst (snd (Service_session self w)), snd (snd (Service_session self w)))"
  by (simp add: session_get_url_fails return_json_def)









lemma fails_find_body: "fails_before_http (find_body path kwargs) self w"
  by (simp add: fails_before_http_def find_body_def return_json_fails session_log
      session_cache)



text \<open>Through the decorator: an empty cache misses, and a failing method stores nothing.\<close>

lemma getitem_empty: "entries c = [] \<Longrightarrow> TTLCache_getitem c k time = (Inl KeyError, c)"
  by (simp add: TTLCache_getitem_def expire_def)

lemma bind_self:
  assumes "bind_args req opt varkw args kwargs \<noteq> Inl TypeError"
  shows "map_of kwargs ''self'' = None"
proof (rule ccontr)
  assume "map_of kwargs ''self'' \<noteq> None"
  then obtain v where "(''self'', v) \<in> set kwargs" by (auto dest: map_of_SomeD)
  then have "filter (\<lambda>kv. fst kv \<in> set (''self'' # map fst (zip (req @ map fst opt) args)))
               kwargs \<noteq> []"
    unfolding filter_empty_conv by (intro notI) force
  then show False using assms by (simp add: bind_args_def Let_def split: if_splits)
qed

lemma cachedmethod_miss_fails:
  assumes "entries (cache self) = []"
    and "map_of kwargs ''self'' = None"
    and "filter (\<lambda>x. \<not> hashable x) (hashkey (PyStr name # args) kwargs) = []"
    and "fails_before_http m self w"
  shows "fails_before_http (cachedmethod name m args kwargs) self w"
proof -
  obtain self1 w1 where m: "m self w = (Inl (AttributeError ''url''), self1, w1)"
    using assms(4) by (cases "m self w") (auto simp add: fails_before_http_def)
  show ?thesis
    using assms m by (simp add: cachedmethod_def fails_before_http_def getitem_empty Let_def)
qed

lemma fails_bound:
  assumes "accepted name req opt varkw args kwargs"
    and "\<And>b extra. fails_before_http (body b extra) self w"
    and "entries (cache self) = []"
  shows "fails_before_http
           (cachedmethod name
              (\<lambda>self w. case bind_args req opt varkw args kwargs of
                           Inl e \<Rightarrow> (Inl e, self, w)
                         | Inr (b, extra) \<Rightarrow> body b extra self w)
              args kwargs) self w"
proof -
  obtain b extra where b: "bind_args req opt varkw args kwargs = Inr (b, extra)"
    using assms(1)
    by (cases "bind_args req opt varkw args kwargs")
      (auto simp add: accepted_def bind_args_def Let_def split: if_splits)
  have s: "map_of kwargs ''self'' = None"
    using assms(1) bind_self [of req opt varkw args kwargs] by (simp add: accepted_def)
  show ?thesis
    by (rule cachedmethod_miss_fails) (use assms b s in \<open>simp_all add: accepted_def\<close>)
qed

lemma fails_find:
  assumes "entries (cache self) = []" and "accepted ''find'' [''path''] [] True args kwargs"
  shows "fails_before_http (Places_find args kwargs) self w"
  unfolding Places_find_def
  by (rule fails_bound [OF assms(2) _ assms(1)]) (rule fails_find_body)



lemma init_cache_empty: "entries (cache (fst (Places_init url token msize t w))) = []"
  by (simp add: Places_init_def Service_init_def TTLCache_def Let_def split: prod.splits)

lemma init_log: "http_log (snd (Places_init url token msize t w)) = http_log w"
  by (simp add: Places_init_def Service_init_def TTLCache_def Let_def split: prod.splits)

lemma fails_before_httpD:
  assumes "fails_before_http m self w" and "m self w = (r, self1, w1)"
  shows "r = Inl (AttributeError ''url'')" and "http_log w1 = http_log w"
    and "entries (cache self1) = entries (cache self)"
  using assms by (simp_all add: fails_before_http_def)

lemma accepted_find_one: "accepted ''find'' [''path''] [] True [PyStr path] []"
  by (simp add: accepted_def bind_args_def hashkey_def Let_def)





text \<open>
  What the decorator does around a method that returns: the value is stored, and a
  second call with the same key within the time to live is answered from the cache
  without calling the method or touching the world. None of the three cached methods
  of \<open>Places\<close> ever returns, as shown above.
\<close>

lemma cachedmethod_stores_then_hits:
  assumes empty: "entries (cache self) = []" and size: "1 \<le> maxsize (cache self)"
    and kw: "map_of kwargs ''self'' = None"
    and hash: "filter (\<lambda>x. \<not> hashable x) (hashkey (PyStr name # args) kwargs) = []"
    and first: "m self w = (Inr v, self1, w1)" and kept: "cache self1 = cache self"
    and live: "\<not> clock w1 + ttl (cache self) < clock w2"
  shows "\<exists>self2. cachedmethod name m args kwargs self w = (Inr v, self2, w1)
           \<and> fst (cachedmethod name m' args kwargs self2 w2) = Inr v
           \<and> snd (snd (cachedmethod name m' args kwargs self2 w2)) = w2"
proof -
  let ?k = "hashkey (PyStr name # args) kwargs"
  let ?c = "(cache self)\<lparr>entries := [(?k, v, clock w1 + ttl (cache self))]\<rparr>"
  have set: "TTLCache_setitem (cache self) ?k v (clock w1) = Inr ?c"
    using empty size by (simp add: TTLCache_setitem_def expire_def Let_def)
  have call1: "cachedmethod name m args kwargs self w = (Inr v, self1\<lparr>cache := ?c\<rparr>, w1)"
    using empty kw hash first kept set
    by (simp add: cachedmethod_def getitem_empty Let_def)
  have get: "fst (TTLCache_getitem ?c ?k (clock w2)) = Inr v"
    using live by (simp add: TTLCache_getitem_def expire_def Let_def)
  have call2: "fst (cachedmethod name m' args kwargs (self1\<lparr>cache := ?c\<rparr>) w2) = Inr v
      \<and> snd (snd (cachedmethod name m' args kwargs (self1\<lparr>cache := ?c\<rparr>) w2)) = w2"
    using kw hash get
    by (cases "TTLCache_getitem ?c ?k (clock w2)") (simp add: cachedmethod_def Let_def)
  show ?thesis using call1 call2 by blast
qed

text \<open>
  C4 on the code. \<open>Places().find('morocco')\<close> called twice: both calls raise
  \<open>AttributeError\<close> and no request is ever issued, where the claim has the first call
  reach the transport exactly once and the second be served from the cache.
\<close>

theorem find_twice_never_reaches_transport:
  "(let (r1, p1, w1) = Places_find [PyStr ''morocco''] [] example_places example_world;
        (r2, p2, w2) = Places_find [PyStr ''morocco''] [] p1 w1
    in r1 = Inl (AttributeError ''url'') \<and> r2 = Inl (AttributeError ''url'')
       \<and> http_log w2 = [] \<and> entries (cache p2) = [])"
proof -
  have e: "entries (cache example_places) = []"
    by (simp add: example_places_def init_cache_empty)
  obtain r1 p1 w1 where
    c1: "Places_find [PyStr ''morocco''] [] example_places example_world = (r1, p1, w1)"
    by (cases "Places_find [PyStr ''morocco''] [] example_places example_world")
  note f1 = fails_before_httpD [OF fails_find [OF e accepted_find_one] c1]
  have e1: "entries (cache p1) = []" using f1(3) e by simp
  obtain r2 p2 w2 where c2: "Places_find [PyStr ''morocco''] [] p1 w1 = (r2, p2, w2)"
    by (cases "Places_find [PyStr ''morocco''] [] p1 w1")
  note f2 = fails_before_httpD [OF fails_find [OF e1 accepted_find_one] c2]
  have "http_log w2 = []" using f1(2) f2(2) by (simp add: example_world_def)
  then show ?thesis using c1 c2 f1(1) f2(1) f2(3) e1 by simp
qed


end
